theory Spec2Isabelle
  imports Complex_Main "HOL-Library.Word"
begin

section \<open>JavaScript values\<close>

text \<open>
  A JavaScript string is a sequence of UTF-16 code units. String literals of the source
  are ASCII and are written through \<open>lit\<close>.
\<close>

type_synonym jschar = "16 word"
type_synonym jsstring = "jschar list"

definition lit :: "string \<Rightarrow> jsstring" where
  "lit s = map of_char s"

text \<open>
  The values that \<open>JSON.parse\<close> produces, and \<open>undefined\<close>, which reading an absent
  property produces. Numbers are the finite doubles, all of them rationals. An object is
  the list of its own properties (the parser leaves no duplicate key).
\<close>

datatype js =
    JUndefined
  | JNull
  | JBool bool
  | JNum rat
  | JStr jsstring
  | JArr "js list"
  | JObj "(jsstring \<times> js) list"

datatype exn =
    TypeError
  | SyntaxError
  | NetworkError
  | StorageError
  | FunctionsError

text \<open>\<open>!v\<close> is \<open>\<not> truthy v\<close>.\<close>

fun truthy :: "js \<Rightarrow> bool" where
  "truthy JUndefined = False"
| "truthy JNull = False"
| "truthy (JBool b) = b"
| "truthy (JNum r) = (r \<noteq> 0)"
| "truthy (JStr s) = (s \<noteq> [])"
| "truthy (JArr xs) = True"
| "truthy (JObj kvs) = True"

text \<open>
  \<open>v.k\<close> and the destructuring \<open>const { k } = v\<close>, for a property name \<open>k\<close> that no
  prototype defines and that is not an index (\<open>message\<close>, \<open>choices\<close>, \<open>content\<close>,
  \<open>response\<close>): a \<open>TypeError\<close> on \<open>null\<close> and \<open>undefined\<close>, the own property of an
  object, \<open>undefined\<close> everywhere else.
\<close>

fun get_prop :: "js \<Rightarrow> jsstring \<Rightarrow> exn + js" where
  "get_prop JUndefined k = Inl TypeError"
| "get_prop JNull k = Inl TypeError"
| "get_prop (JObj kvs) k = Inr (case map_of kvs k of None \<Rightarrow> JUndefined | Some v \<Rightarrow> v)"
| "get_prop (JBool b) k = Inr JUndefined"
| "get_prop (JNum r) k = Inr JUndefined"
| "get_prop (JStr s) k = Inr JUndefined"
| "get_prop (JArr xs) k = Inr JUndefined"

text \<open>\<open>v[0]\<close>: the first element of an array, the first code unit of a string.\<close>

fun get_index0 :: "js \<Rightarrow> exn + js" where
  "get_index0 JUndefined = Inl TypeError"
| "get_index0 JNull = Inl TypeError"
| "get_index0 (JArr xs) = Inr (case xs of [] \<Rightarrow> JUndefined | x # _ \<Rightarrow> x)"
| "get_index0 (JStr s) = Inr (case s of [] \<Rightarrow> JUndefined | c # _ \<Rightarrow> JStr [c])"
| "get_index0 (JObj kvs) = Inr (case map_of kvs (lit ''0'') of None \<Rightarrow> JUndefined | Some v \<Rightarrow> v)"
| "get_index0 (JBool b) = Inr JUndefined"
| "get_index0 (JNum r) = Inr JUndefined"

text \<open>Sequencing of steps that may throw: the first exception ends the sequence.\<close>

definition and_then :: "exn + 'a \<Rightarrow> ('a \<Rightarrow> exn + 'b) \<Rightarrow> exn + 'b" where
  "and_then r f = (case r of Inl e \<Rightarrow> Inl e | Inr v \<Rightarrow> f v)"

text \<open>
  \<open>JSON.stringify\<close> of an object literal leaves out the properties whose value is
  \<open>undefined\<close>. A serialised body is kept as the value that was serialised.
\<close>

definition json_stringify :: "(jsstring \<times> js) list \<Rightarrow> js" where
  "json_stringify kvs = JObj (filter (\<lambda>kv. snd kv \<noteq> JUndefined) kvs)"

text \<open>The decimal digits of a number inside a template literal.\<close>

definition digit :: "nat \<Rightarrow> jschar" where
  "digit d = of_nat (48 + d)"

function string_of_nat :: "nat \<Rightarrow> jsstring" where
  "string_of_nat n =
     (if n < 10 then [digit n]
      else string_of_nat (n div 10) @ [digit (n mod 10)])"
  by pat_completeness auto
termination
  by (relation "measure id") auto

declare string_of_nat.simps [simp del]

section \<open>The Completion Proxy (the edge function)\<close>

text \<open>
  What an \<open>await\<close> meets: the call never settles, it rejects with an exception, or it
  resolves with a value. An \<open>async\<close> function ends in the same three ways.
\<close>

datatype 'a promise = Pending | Rejected exn | Resolved 'a

record request =
  req_method :: jsstring
  req_json :: "js promise"

text \<open>
  \<open>req_json\<close> is what \<open>await req.json()\<close> meets: it rejects when there is no body or the
  body is not JSON, and resolves with the parsed value otherwise.
\<close>

record response =
  status :: nat
  headers :: "(jsstring \<times> jsstring) list"
  body :: "js option"

record payload =
  model :: jsstring
  messages :: "(jsstring \<times> js) list"
  max_tokens :: nat
  temperature :: rat

record fetch_request =
  url :: jsstring
  fetch_method :: jsstring
  fetch_headers :: "(jsstring \<times> jsstring) list"
  fetch_body :: payload

text \<open>
  The response of the external completion API: its status, and what \<open>await response.text()\<close>
  and \<open>await response.json()\<close> meet. The handler reads the body once, by one of the two.
\<close>

record upstream =
  up_status :: nat
  up_text :: "jsstring promise"
  up_json :: "js promise"

definition ok :: "upstream \<Rightarrow> bool" where
  "ok r = (200 \<le> up_status r \<and> up_status r \<le> 299)"

definition corsHeaders :: "(jsstring \<times> jsstring) list" where
  "corsHeaders =
     [(lit ''Access-Control-Allow-Origin'', lit ''*''),
      (lit ''Access-Control-Allow-Headers'',
       lit ''authorization, x-client-info, apikey, content-type'')]"

definition json_headers :: "(jsstring \<times> jsstring) list" where
  "json_headers = corsHeaders @ [(lit ''Content-Type'', lit ''application/json'')]"

definition system_instruction :: jsstring where
  "system_instruction = lit (''You are a helpful AI assistant for ClassBridge, an education platform. '' @
     ''Help students and teachers with their educational needs. '' @
     ''Be concise, accurate, and supportive in your responses.'')"

definition openAIPayload :: "js \<Rightarrow> payload" where
  "openAIPayload message =
     \<lparr>model = lit ''gpt-4.1-2025-04-14'',
      messages = [(lit ''system'', JStr system_instruction), (lit ''user'', message)],
      max_tokens = 1000,
      temperature = 7 / 10\<rparr>"

definition openAI_request :: "jsstring \<Rightarrow> js \<Rightarrow> fetch_request" where
  "openAI_request openAIApiKey message =
     \<lparr>url = lit ''https://api.openai.com/v1/chat/completions'',
      fetch_method = lit ''POST'',
      fetch_headers =
        [(lit ''Authorization'', lit ''Bearer '' @ openAIApiKey),
         (lit ''Content-Type'', lit ''application/json'')],
      fetch_body = openAIPayload message\<rparr>"

definition message_required :: response where
  "message_required =
     \<lparr>status = 400, headers = json_headers,
      body = Some (json_stringify [(lit ''error'', JStr (lit ''Message is required''))])\<rparr>"

definition key_not_configured :: response where
  "key_not_configured =
     \<lparr>status = 500, headers = json_headers,
      body = Some (json_stringify [(lit ''error'', JStr (lit ''OpenAI API key not configured''))])\<rparr>"

definition upstream_failure :: "nat \<Rightarrow> jsstring \<Rightarrow> response" where
  "upstream_failure st errorData =
     \<lparr>status = 500, headers = json_headers,
      body = Some (json_stringify
        [(lit ''error'', JStr (lit ''Failed to get response from AI'')),
         (lit ''details'',
          JStr (lit ''OpenAI API returned '' @ string_of_nat st @ lit '': '' @ errorData))])\<rparr>"

definition success :: "js \<Rightarrow> response" where
  "success aiResponse =
     \<lparr>status = 200, headers = json_headers,
      body = Some (json_stringify [(lit ''response'', aiResponse)])\<rparr>"

definition internal_server_error :: response where
  "internal_server_error =
     \<lparr>status = 500, headers = json_headers,
      body = Some (json_stringify [(lit ''error'', JStr (lit ''Internal server error''))])\<rparr>"

definition preflight :: response where
  "preflight = \<lparr>status = 200, headers = corsHeaders, body = None\<rparr>"

text \<open>\<open>data.choices[0].message.content\<close>\<close>

definition first_choice_content :: "js \<Rightarrow> exn + js" where
  "first_choice_content data =
     and_then (and_then (and_then (get_prop data (lit ''choices'')) get_index0)
       (\<lambda>c. get_prop c (lit ''message''))) (\<lambda>m. get_prop m (lit ''content''))"

text \<open>
  The body of the handler's \<open>try\<close>. The server-held key is \<open>openAIApiKey\<close> (\<open>None\<close> when
  the environment variable is not set), the external API is \<open>fetch\<close>. The result is how
  the block ends (a response returned, an exception thrown, or an \<open>await\<close> that never
  resumes), with the outbound calls made, in order. The \<open>console\<close> calls are left out: they
  do not throw and the response does not depend on them.
\<close>

definition try_block ::
  "jsstring option \<Rightarrow> (fetch_request \<Rightarrow> upstream promise) \<Rightarrow> request
     \<Rightarrow> response promise \<times> fetch_request list" where
  "try_block openAIApiKey fetch req =
     (case req_json req of
        Pending \<Rightarrow> (Pending, [])
      | Rejected e \<Rightarrow> (Rejected e, [])
      | Resolved parsed \<Rightarrow>
          (case get_prop parsed (lit ''message'') of
             Inl e \<Rightarrow> (Rejected e, [])
           | Inr message \<Rightarrow>
               if \<not> truthy message then (Resolved message_required, [])
               else
                 (case openAIApiKey of
                    None \<Rightarrow> (Resolved key_not_configured, [])
                  | Some k \<Rightarrow>
                      if k = [] then (Resolved key_not_configured, [])
                      else
                        (let call = openAI_request k message in
                         case fetch call of
                           Pending \<Rightarrow> (Pending, [call])
                         | Rejected e \<Rightarrow> (Rejected e, [call])
                         | Resolved resp \<Rightarrow>
                             if \<not> ok resp then
                               (case up_text resp of
                                  Pending \<Rightarrow> (Pending, [call])
                                | Rejected e \<Rightarrow> (Rejected e, [call])
                                | Resolved errorData \<Rightarrow>
                                    (Resolved (upstream_failure (up_status resp) errorData),
                                     [call]))
                             else
                               (case up_json resp of
                                  Pending \<Rightarrow> (Pending, [call])
                                | Rejected e \<Rightarrow> (Rejected e, [call])
                                | Resolved data \<Rightarrow>
                                    (case first_choice_content data of
                                       Inl e \<Rightarrow> (Rejected e, [call])
                                     | Inr aiResponse \<Rightarrow>
                                         (Resolved (success aiResponse), [call])))))))"

text \<open>
  The handler: the preflight answer, then the \<open>try\<close> with its \<open>catch\<close>, which turns every
  exception into a response. Nothing bounds the time an \<open>await\<close> takes.
\<close>

definition serve ::
  "jsstring option \<Rightarrow> (fetch_request \<Rightarrow> upstream promise) \<Rightarrow> request
     \<Rightarrow> response promise \<times> fetch_request list" where
  "serve openAIApiKey fetch req =
     (if req_method req = lit ''OPTIONS'' then (Resolved preflight, [])
      else
        (case try_block openAIApiKey fetch req of
           (Pending, calls) \<Rightarrow> (Pending, calls)
         | (Rejected error, calls) \<Rightarrow> (Resolved internal_server_error, calls)
         | (Resolved r, calls) \<Rightarrow> (Resolved r, calls)))"


section \<open>The Conversation Controller (the ChatBot component)\<close>

text \<open>
  \<open>String.prototype.trim\<close> removes the white space and line terminator code units of
  ECMAScript from both ends.
\<close>

definition is_white_space :: "jschar \<Rightarrow> bool" where
  "is_white_space c =
     (c \<in> set [0x0009, 0x000A, 0x000B, 0x000C, 0x000D, 0x0020, 0x00A0, 0x1680,
                 0x2028, 0x2029, 0x202F, 0x205F, 0x3000, 0xFEFF]
      \<or> (0x2000 \<le> c \<and> c \<le> 0x200A))"

definition trim :: "jsstring \<Rightarrow> jsstring" where
  "trim s = rev (dropWhile is_white_space (rev (dropWhile is_white_space s)))"

datatype role = User | Assistant

text \<open>A row of the \<open>messages\<close> table, which is also the \<open>Message\<close> of the view.\<close>

record message_row =
  msg_id :: jsstring
  user_id :: "jsstring option"
  msg_role :: role
  content :: js
  created_at :: jsstring

text \<open>A row of the \<open>profiles\<close> table.\<close>

record profile_row =
  profile_id :: jsstring
  display_name :: "jsstring option"
  email :: jsstring

record toast_args =
  title :: jsstring
  description :: jsstring
  variant :: "jsstring option"

text \<open>
  What the component does to the world outside its own state, in program order: a call
  of \<open>saveMessage\<close> with the row it returned (\<open>None\<close> when it threw), an append to the
  view, a call of the edge function with the request body, a write to \<open>profiles\<close> with
  whether the store accepted it, a toast.
\<close>

datatype effect =
    SaveMessage role js "message_row option"
  | SetMessages message_row
  | Invoke js
  | UpdateProfile jsstring bool
  | Toast toast_args

text \<open>
  The state of the component (\<open>useState\<close>; its \<open>messages\<close> is \<open>chat_messages\<close> here, the
  name \<open>messages\<close> being the payload's), the signed-in user's id (\<open>user?.id\<close>), the two
  tables of the store, and the effects so far. The copies of the component in the
  repository share \<open>handleSendMessage\<close> statement by statement; they differ in the library
  that shows the notification.
\<close>

record chat =
  chat_messages :: "message_row list"
  inputValue :: jsstring
  loading :: bool
  profile :: "profile_row option"
  displayNameInput :: jsstring
  nameDialogOpen :: bool
  user :: "jsstring option"
  messages_table :: "message_row list"
  profiles_table :: "profile_row list"
  trace :: "effect list"

text \<open>
  The store is external. An insert either fails, leaving the table as it was, or the store
  assigns an id and a timestamp and appends the row, which it returns. An update either
  fails or overwrites the rows the filter selects.
\<close>

datatype insert_outcome = InsertError | Inserted jsstring jsstring

datatype update_outcome = UpdateError | UpdateOk

datatype select_outcome = SelectError | SelectOk

text \<open>\<open>supabase.functions.invoke\<close> returns \<open>{ data, error }\<close>.\<close>

datatype invoke_outcome = InvokeError | InvokeData js

record outcomes =
  save_user :: insert_outcome
  invoke :: invoke_outcome
  save_assistant :: insert_outcome

definition emit :: "effect \<Rightarrow> chat \<Rightarrow> chat" where
  "emit e s = s\<lparr>trace := trace s @ [e]\<rparr>"

definition saveMessage :: "insert_outcome \<Rightarrow> role \<Rightarrow> js \<Rightarrow> chat \<Rightarrow> (exn + message_row) \<times> chat" where
  "saveMessage out r c s =
     (case out of
        InsertError \<Rightarrow> (Inl StorageError, emit (SaveMessage r c None) s)
      | Inserted i t \<Rightarrow>
          (let data = \<lparr>msg_id = i, user_id = user s, msg_role = r, content = c, created_at = t\<rparr>
           in (Inr data,
               emit (SaveMessage r c (Some data))
                 (s\<lparr>messages_table := messages_table s @ [data]\<rparr>))))"

text \<open>\<open>setMessages(prev => [...prev, m])\<close>\<close>

definition setMessages :: "message_row \<Rightarrow> chat \<Rightarrow> chat" where
  "setMessages m s = emit (SetMessages m) (s\<lparr>chat_messages := chat_messages s @ [m]\<rparr>)"

definition invoke_body :: "jsstring \<Rightarrow> js" where
  "invoke_body userMessage = JObj [(lit ''message'', JStr userMessage)]"

definition send_failed :: toast_args where
  "send_failed =
     \<lparr>title = lit ''Error'',
      description = lit ''Failed to send message. Please try again.'',
      variant = Some (lit ''destructive'')\<rparr>"

text \<open>The \<open>try\<close> of \<open>handleSendMessage\<close>: the exception thrown, if any, and the state.\<close>

definition send_try :: "outcomes \<Rightarrow> jsstring \<Rightarrow> chat \<Rightarrow> exn option \<times> chat" where
  "send_try env userMessage s =
     (case saveMessage (save_user env) User (JStr userMessage) s of
        (Inl e, s1) \<Rightarrow> (Some e, s1)
      | (Inr savedUserMessage, s1) \<Rightarrow>
          (let s2 = setMessages savedUserMessage s1;
               s3 = emit (Invoke (invoke_body userMessage)) s2
           in case invoke env of
                InvokeError \<Rightarrow> (Some FunctionsError, s3)
              | InvokeData data \<Rightarrow>
                  (case get_prop data (lit ''response'') of
                     Inl e \<Rightarrow> (Some e, s3)
                   | Inr assistantResponse \<Rightarrow>
                       (case saveMessage (save_assistant env) Assistant assistantResponse s3 of
                          (Inl e, s4) \<Rightarrow> (Some e, s4)
                        | (Inr savedAssistantMessage, s4) \<Rightarrow>
                            (None, setMessages savedAssistantMessage s4)))))"

definition handleSendMessage :: "outcomes \<Rightarrow> chat \<Rightarrow> chat" where
  "handleSendMessage env s =
     (if trim (inputValue s) = [] \<or> loading s then s
      else
        (let userMessage = trim (inputValue s);
             s0 = s\<lparr>inputValue := [], loading := True\<rparr>
         in case send_try env userMessage s0 of
              (None, s1) \<Rightarrow> s1\<lparr>loading := False\<rparr>
            | (Some error, s1) \<Rightarrow> (emit (Toast send_failed) s1)\<lparr>loading := False\<rparr>))"

text \<open>The user types a text and submits it, one submission after the other.\<close>

fun submissions :: "(jsstring \<times> outcomes) list \<Rightarrow> chat \<Rightarrow> chat" where
  "submissions [] s = s"
| "submissions ((text, env) # rest) s =
     submissions rest (handleSendMessage env (s\<lparr>inputValue := text\<rparr>))"

text \<open>The outcomes with which every step of a round trip succeeds.\<close>

definition succeeds :: "outcomes \<Rightarrow> bool" where
  "succeeds env =
     (save_user env \<noteq> InsertError \<and>
      (case invoke env of
         InvokeError \<Rightarrow> False
       | InvokeData data \<Rightarrow>
           (case get_prop data (lit ''response'') of
              Inl e \<Rightarrow> False
            | Inr r \<Rightarrow> save_assistant env \<noteq> InsertError)))"



definition stored_for :: "jsstring \<Rightarrow> chat \<Rightarrow> message_row list" where
  "stored_for u s = filter (\<lambda>m. user_id m = Some u) (messages_table s)"

subsection \<open>The suspended calls of \<open>handleSendMessage\<close>\<close>

text \<open>
  \<open>handleSendMessage\<close> is an \<open>async\<close> function: it runs up to an \<open>await\<close>, returns to the
  event loop, and is resumed when the awaited call completes. Between the two, other
  events are handled. The function is a closure of a render: the \<open>inputValue\<close> and the
  \<open>loading\<close> it reads are those of the state that render captured, whatever the setters
  have been given since; the setters act on the current state. A session is the current
  state, the state the last render captured, and the calls of \<open>handleSendMessage\<close> that are
  suspended, each with what it awaits.
\<close>

datatype task = AwaitSaveUser jsstring | AwaitInvoke jsstring | AwaitSaveAssistant js

datatype completion = InsertDone insert_outcome | InvokeDone invoke_outcome

datatype event = Typed jsstring | Submit | Render | Completes nat completion

record session =
  current :: chat
  rendered :: chat
  suspended :: "task list"

text \<open>
  From the call to the first \<open>await\<close>: \<open>seen\<close> is the state the handler's render captured,
  \<open>s\<close> the current state.
\<close>

definition start_send :: "chat \<Rightarrow> chat \<Rightarrow> chat \<times> task option" where
  "start_send seen s =
     (if trim (inputValue seen) = [] \<or> loading seen then (s, None)
      else (s\<lparr>inputValue := [], loading := True\<rparr>,
            Some (AwaitSaveUser (trim (inputValue seen)))))"

text \<open>The \<open>catch\<close> and the \<open>finally\<close>.\<close>

definition fail_send :: "chat \<Rightarrow> chat" where
  "fail_send s = (emit (Toast send_failed) s)\<lparr>loading := False\<rparr>"

text \<open>From one \<open>await\<close> to the next, or to the end.\<close>

fun resume :: "task \<Rightarrow> completion \<Rightarrow> chat \<Rightarrow> chat \<times> task option" where
  "resume (AwaitSaveUser userMessage) (InsertDone out) s =
     (case saveMessage out User (JStr userMessage) s of
        (Inl e, s1) \<Rightarrow> (fail_send s1, None)
      | (Inr savedUserMessage, s1) \<Rightarrow>
          (emit (Invoke (invoke_body userMessage)) (setMessages savedUserMessage s1),
           Some (AwaitInvoke userMessage)))"
| "resume (AwaitInvoke userMessage) (InvokeDone out) s =
     (case out of
        InvokeError \<Rightarrow> (fail_send s, None)
      | InvokeData data \<Rightarrow>
          (case get_prop data (lit ''response'') of
             Inl e \<Rightarrow> (fail_send s, None)
           | Inr assistantResponse \<Rightarrow> (s, Some (AwaitSaveAssistant assistantResponse))))"
| "resume (AwaitSaveAssistant assistantResponse) (InsertDone out) s =
     (case saveMessage out Assistant assistantResponse s of
        (Inl e, s1) \<Rightarrow> (fail_send s1, None)
      | (Inr savedAssistantMessage, s1) \<Rightarrow>
          ((setMessages savedAssistantMessage s1)\<lparr>loading := False\<rparr>, None))"
| "resume t c s = (s, Some t)"

text \<open>
  One event: the user types (\<open>setInputValue\<close>), the user submits (a click on the button or
  the Enter key calls the \<open>handleSendMessage\<close> of the last render), the component renders,
  or the call awaited by the i-th suspended call completes.
\<close>

fun step :: "event \<Rightarrow> session \<Rightarrow> session" where
  "step (Typed text) c = c\<lparr>current := (current c)\<lparr>inputValue := text\<rparr>\<rparr>"
| "step Submit c =
     (case start_send (rendered c) (current c) of
        (s', None) \<Rightarrow> c\<lparr>current := s'\<rparr>
      | (s', Some t) \<Rightarrow> c\<lparr>current := s', suspended := suspended c @ [t]\<rparr>)"
| "step Render c = c\<lparr>rendered := current c\<rparr>"
| "step (Completes i cmp) c =
     (if i < length (suspended c) then
        (case resume (suspended c ! i) cmp (current c) of
           (s', None) \<Rightarrow>
             c\<lparr>current := s', suspended := take i (suspended c) @ drop (Suc i) (suspended c)\<rparr>
         | (s', Some t) \<Rightarrow> c\<lparr>current := s', suspended := (suspended c)[i := t]\<rparr>)
      else c)"

fun run :: "event list \<Rightarrow> session \<Rightarrow> session" where
  "run [] c = c"
| "run (ev # evs) c = run evs (step ev c)"

text \<open>A session that has just rendered and has no call suspended.\<close>

definition fresh :: "chat \<Rightarrow> session" where
  "fresh s = \<lparr>current = s, rendered = s, suspended = []\<rparr>"


subsection \<open>The profile\<close>

definition display_name_updated :: toast_args where
  "display_name_updated =
     \<lparr>title = lit ''Display name updated!'',
      description = lit ''Your display name has been updated successfully.'',
      variant = None\<rparr>"

definition update_failed :: toast_args where
  "update_failed =
     \<lparr>title = lit ''Error'',
      description = lit ''Failed to update display name. Please try again.'',
      variant = Some (lit ''destructive'')\<rparr>"

definition updateDisplayName :: "update_outcome \<Rightarrow> chat \<Rightarrow> chat" where
  "updateDisplayName out s =
     (if trim (displayNameInput s) = [] then s
      else
        (let name = trim (displayNameInput s) in
         case out of
           UpdateError \<Rightarrow> emit (Toast update_failed) (emit (UpdateProfile name False) s)
         | UpdateOk \<Rightarrow>
             (let s1 = emit (UpdateProfile name True)
                    (s\<lparr>profiles_table :=
                         map (\<lambda>p. if Some (profile_id p) = user s
                                   then p\<lparr>display_name := Some name\<rparr> else p)
                           (profiles_table s)\<rparr>);
                  s2 = s1\<lparr>profile :=
                           (case profile s1 of
                              None \<Rightarrow> None
                            | Some prev \<Rightarrow> Some (prev\<lparr>display_name := Some name\<rparr>)),
                          nameDialogOpen := False\<rparr>
              in emit (Toast display_name_updated) s2)))"

text \<open>
  \<open>loadProfile\<close>: \<open>.single()\<close> gives an error unless exactly one row is selected;
  \<open>data.display_name || ''\<close> is the name, or the empty string for \<open>null\<close>.
\<close>

definition loadProfile :: "select_outcome \<Rightarrow> chat \<Rightarrow> chat" where
  "loadProfile out s =
     (case out of
        SelectError \<Rightarrow> s
      | SelectOk \<Rightarrow>
          (case filter (\<lambda>p. Some (profile_id p) = user s) (profiles_table s) of
             [data] \<Rightarrow>
               s\<lparr>profile := Some data,
                 displayNameInput := (case display_name data of None \<Rightarrow> [] | Some n \<Rightarrow> n)\<rparr>
           | _ \<Rightarrow> s))"

section \<open>Reading the trace\<close>

text \<open>The request bodies of the calls of the edge function, in order.\<close>

fun invoked :: "effect list \<Rightarrow> js list" where
  "invoked [] = []"
| "invoked (Invoke b # es) = b # invoked es"
| "invoked (e # es) = invoked es"

text \<open>The contents handed to \<open>saveMessage\<close> with a given role, in order.\<close>

fun saved :: "role \<Rightarrow> effect list \<Rightarrow> js list" where
  "saved r [] = []"
| "saved r (SaveMessage r' c row # es) = (if r' = r then c # saved r es else saved r es)"
| "saved r (e # es) = saved r es"

text \<open>The number that a string of decimal digits denotes.\<close>

definition decimal_value :: "jsstring \<Rightarrow> nat" where
  "decimal_value ds = foldl (\<lambda>a d. 10 * a + (unat d - 48)) 0 ds"

text \<open>A decimal digit.\<close>

definition is_decimal_digit :: "jschar \<Rightarrow> bool" where
  "is_decimal_digit c = (48 \<le> unat c \<and> unat c \<le> 57)"


section \<open>Concrete inputs\<close>

definition demo_key :: jsstring where
  "demo_key = lit ''sk-demo''"

definition demo_post :: "js \<Rightarrow> request" where
  "demo_post parsed = \<lparr>req_method = lit ''POST'', req_json = Resolved parsed\<rparr>"

definition demo_no_json :: request where
  "demo_no_json = \<lparr>req_method = lit ''POST'', req_json = Rejected SyntaxError\<rparr>"

definition demo_question :: js where
  "demo_question = JStr (lit ''What is photosynthesis?'')"

definition demo_ask :: request where
  "demo_ask = \<lparr>req_method = lit ''POST'',
                req_json = Resolved (JObj [(lit ''message'', demo_question)])\<rparr>"

definition demo_choice :: "string \<Rightarrow> js" where
  "demo_choice c =
     JObj [(lit ''index'', JNum 0), (lit ''finish_reason'', JStr (lit ''stop'')),
           (lit ''message'',
            JObj [(lit ''role'', JStr (lit ''assistant'')), (lit ''content'', JStr (lit c))])]"

definition demo_completion :: js where
  "demo_completion =
     JObj [(lit ''id'', JStr (lit ''cmpl-1'')),
           (lit ''choices'',
            JArr [demo_choice ''Plants turn light into sugar.'', demo_choice ''Ask a botanist.''])]"

definition demo_fetch_ok :: "fetch_request \<Rightarrow> upstream promise" where
  "demo_fetch_ok call =
     Resolved \<lparr>up_status = 200, up_text = Rejected TypeError, up_json = Resolved demo_completion\<rparr>"

definition demo_fetch_429 :: "fetch_request \<Rightarrow> upstream promise" where
  "demo_fetch_429 call =
     Resolved \<lparr>up_status = 429, up_text = Resolved (lit ''rate limited''),
               up_json = Rejected TypeError\<rparr>"

definition demo_fetch_503 :: "fetch_request \<Rightarrow> upstream promise" where
  "demo_fetch_503 call =
     Resolved \<lparr>up_status = 503, up_text = Resolved (lit ''overloaded''),
               up_json = Rejected TypeError\<rparr>"



definition demo_chat :: chat where
  "demo_chat =
     \<lparr>chat_messages = [], inputValue = lit ''What is photosynthesis?'', loading = False,
      profile = None, displayNameInput = lit '' Ada '', nameDialogOpen = True,
      user = Some (lit ''u1''), messages_table = [],
      profiles_table =
        [\<lparr>profile_id = lit ''u1'', display_name = None, email = lit ''ada@example.org''\<rparr>,
         \<lparr>profile_id = lit ''u2'', display_name = Some (lit ''Bob''), email = lit ''bob@example.org''\<rparr>],
      trace = []\<rparr>"

definition demo_ok :: outcomes where
  "demo_ok =
     \<lparr>save_user = Inserted (lit ''m1'') (lit ''2025-01-01T00:00:00Z''),
      invoke = InvokeData (JObj [(lit ''response'', JStr (lit ''Plants turn light into sugar.''))]),
      save_assistant = Inserted (lit ''m2'') (lit ''2025-01-01T00:00:02Z'')\<rparr>"


definition demo_ok_again :: outcomes where
  "demo_ok_again =
     \<lparr>save_user = Inserted (lit ''m3'') (lit ''2025-01-01T00:01:00Z''),
      invoke = InvokeData (JObj [(lit ''response'', JStr (lit ''Through chlorophyll.''))]),
      save_assistant = Inserted (lit ''m4'') (lit ''2025-01-01T00:01:02Z'')\<rparr>"

definition demo_user_row :: "jsstring \<Rightarrow> message_row" where
  "demo_user_row c =
     \<lparr>msg_id = lit ''m1'', user_id = Some (lit ''u1''), msg_role = User,
      content = JStr c, created_at = lit ''2025-01-01T00:00:00Z''\<rparr>"

definition demo_assistant_row :: message_row where
  "demo_assistant_row =
     \<lparr>msg_id = lit ''m2'', user_id = Some (lit ''u1''), msg_role = Assistant,
      content = JStr (lit ''Plants turn light into sugar.''),
      created_at = lit ''2025-01-01T00:00:02Z''\<rparr>"

section \<open>Properties of the Completion Proxy\<close>

lemma json_stringify_defined:
  "\<forall>kv \<in> set kvs. snd kv \<noteq> JUndefined \<Longrightarrow> json_stringify kvs = JObj kvs"
  by (simp add: json_stringify_def)

lemma string_of_nat_429: "string_of_nat 429 = lit ''429''"
  by (simp add: string_of_nat.simps digit_def lit_def)

lemma string_of_nat_503: "string_of_nat 503 = lit ''503''"
  by (simp add: string_of_nat.simps digit_def lit_def)

lemma unat_digit: "k < 10 \<Longrightarrow> unat (digit k) = 48 + k"
  unfolding digit_def unat_of_nat by simp

lemma digit_is_decimal: "k < 10 \<Longrightarrow> is_decimal_digit (digit k)"
  by (simp add: is_decimal_digit_def unat_digit)

text \<open>The status can be read back from its digits.\<close>

lemma decimal_value_string_of_nat: "decimal_value (string_of_nat n) = n"
proof (induction n rule: string_of_nat.induct)
  case (1 n)
  show ?case
  proof (cases "n < 10")
    case True
    then show ?thesis
      by (simp add: string_of_nat.simps [of n] decimal_value_def unat_digit)
  next
    case False
    have "decimal_value (string_of_nat (n div 10)) = n div 10"
      using 1 False by simp
    then show ?thesis
      using False by (simp add: string_of_nat.simps [of n] decimal_value_def unat_digit)
  qed
qed

lemma string_of_nat_digits: "list_all is_decimal_digit (string_of_nat n)"
proof (induction n rule: string_of_nat.induct)
  case (1 n)
  show ?case
  proof (cases "n < 10")
    case True
    then show ?thesis
      by (simp add: string_of_nat.simps [of n] digit_is_decimal)
  next
    case False
    have "list_all is_decimal_digit (string_of_nat (n div 10))"
      using 1 False by simp
    then show ?thesis
      using False by (simp add: string_of_nat.simps [of n] digit_is_decimal)
  qed
qed

lemma string_of_nat_not_empty: "string_of_nat n \<noteq> []"
  by (simp add: string_of_nat.simps [of n])

lemma string_of_nat_leading: "0 < n \<Longrightarrow> hd (string_of_nat n) \<noteq> digit 0"
proof (induction n rule: string_of_nat.induct)
  case (1 n)
  show ?case
  proof (cases "n < 10")
    case True
    have "unat (digit n) \<noteq> unat (digit 0)"
      using True "1.prems" by (simp add: unat_digit)
    then have "digit n \<noteq> digit 0"
      by auto
    then show ?thesis
      using True by (simp add: string_of_nat.simps [of n])
  next
    case False
    then have "hd (string_of_nat (n div 10)) \<noteq> digit 0"
      using 1 by simp
    then show ?thesis
      using False by (simp add: string_of_nat.simps [of n] string_of_nat_not_empty)
  qed
qed





lemma serve_body_without_properties:
  assumes "req_method req \<noteq> lit ''OPTIONS''"
    and "req_json req = Resolved parsed"
    and "parsed = JBool b \<or> parsed = JNum n \<or> parsed = JStr str \<or> parsed = JArr xs"
  shows "serve key fetch req = (Resolved message_required, [])"
  using assms by (auto simp: serve_def try_block_def)

text \<open>
  What the handler does once the message is accepted and the key is configured, by what
  the one outbound call meets.
\<close>

lemma serve_accepted:
  assumes "req_method req \<noteq> lit ''OPTIONS''"
    and "req_json req = Resolved parsed"
    and "get_prop parsed (lit ''message'') = Inr message"
    and "truthy message"
    and "k \<noteq> []"
  shows "serve (Some k) fetch req =
     (case fetch (openAI_request k message) of
        Pending \<Rightarrow> Pending
      | Rejected e \<Rightarrow> Resolved internal_server_error
      | Resolved resp \<Rightarrow>
          if \<not> ok resp then
            (case up_text resp of
               Pending \<Rightarrow> Pending
             | Rejected e \<Rightarrow> Resolved internal_server_error
             | Resolved errorData \<Rightarrow> Resolved (upstream_failure (up_status resp) errorData))
          else
            (case up_json resp of
               Pending \<Rightarrow> Pending
             | Rejected e \<Rightarrow> Resolved internal_server_error
             | Resolved data \<Rightarrow>
                 (case first_choice_content data of
                    Inl e \<Rightarrow> Resolved internal_server_error
                  | Inr aiResponse \<Rightarrow> Resolved (success aiResponse))),
      [openAI_request k message])"
  using assms
  by (auto simp: serve_def try_block_def Let_def split: promise.splits sum.splits)

text \<open>\<open>data.choices[0].message.content\<close> on a completion: the content of the first choice.\<close>

lemma first_choice_content_first:
  assumes "map_of props (lit ''choices'') = Some (JArr (JObj choice # others))"
    and "map_of choice (lit ''message'') = Some (JObj msg)"
    and "map_of msg (lit ''content'') = Some generated"
  shows "first_choice_content (JObj props) = Inr generated"
  using assms by (simp add: first_choice_content_def and_then_def)

text \<open>
  C3. A request whose JSON body has no \<open>message\<close> property, or has the empty string
  there, is answered with status 400 and the body \<open>{"error": "Message is required"}\<close>, and
  no call goes out to the external completion API.
\<close>

theorem proxy_rejects_missing_message:
  assumes "req_method req \<noteq> lit ''OPTIONS''"
    and "req_json req = Resolved (JObj kvs)"
    and "map_of kvs (lit ''message'') = None \<or> map_of kvs (lit ''message'') = Some (JStr [])"
  shows "serve key fetch req = (Resolved message_required, [])
    \<and> status message_required = 400
    \<and> body message_required = Some (JObj [(lit ''error'', JStr (lit ''Message is required''))])"
  using assms
  by (auto simp: serve_def try_block_def message_required_def json_stringify_def)

theorem proxy_rejects_missing_message_witness:
  "serve (Some demo_key) demo_fetch_ok (demo_post (JObj [(lit ''message'', JStr [])]))
     = (Resolved message_required, [])
   \<and> serve (Some demo_key) demo_fetch_ok (demo_post (JObj [])) = (Resolved message_required, [])
   \<and> status message_required = 400
   \<and> body message_required = Some (JObj [(lit ''error'', JStr (lit ''Message is required''))])"
  using proxy_rejects_missing_message
          [of "demo_post (JObj [(lit ''message'', JStr [])])" "[(lit ''message'', JStr [])]"
              "Some demo_key" demo_fetch_ok]
        proxy_rejects_missing_message
          [of "demo_post (JObj [])" "[]" "Some demo_key" demo_fetch_ok]
  by (simp add: demo_post_def lit_def)

text \<open>
  C4. For a request whose \<open>message\<close> is accepted (a non-empty string, or any other truthy
  value) with the key configured, exactly one call goes out; its prompt has exactly two
  entries, the fixed system instruction and the message of this request, whatever was
  asked before; and when the external API answers with a success status and a completion
  (an object whose \<open>choices\<close> is an array that starts with an object whose \<open>message\<close> is an
  object with a \<open>content\<close>), the answer is a 200 whose body is \<open>{"response": content}\<close>, with
  the content of that first choice and nothing else of the completion.
\<close>

theorem proxy_prompt_and_response:
  assumes "req_method req \<noteq> lit ''OPTIONS''"
    and "req_json req = Resolved parsed"
    and "get_prop parsed (lit ''message'') = Inr message"
    and "truthy message"
    and "k \<noteq> []"
  shows "snd (serve (Some k) fetch req) = [openAI_request k message]
    \<and> messages (fetch_body (openAI_request k message)) =
        [(lit ''system'', JStr system_instruction), (lit ''user'', message)]
    \<and> (\<forall>resp props choice others msg generated.
          fetch (openAI_request k message) = Resolved resp \<and> ok resp
          \<and> up_json resp = Resolved (JObj props)
          \<and> map_of props (lit ''choices'') = Some (JArr (JObj choice # others))
          \<and> map_of choice (lit ''message'') = Some (JObj msg)
          \<and> map_of msg (lit ''content'') = Some generated
          \<and> generated \<noteq> JUndefined
          \<longrightarrow> serve (Some k) fetch req =
                (Resolved \<lparr>status = 200, headers = json_headers,
                           body = Some (JObj [(lit ''response'', generated)])\<rparr>,
                 [openAI_request k message]))"
proof -
  have "snd (serve (Some k) fetch req) = [openAI_request k message]"
    by (simp add: serve_accepted [OF assms])
  moreover have "messages (fetch_body (openAI_request k message)) =
        [(lit ''system'', JStr system_instruction), (lit ''user'', message)]"
    by (simp add: openAI_request_def openAIPayload_def)
  moreover have "serve (Some k) fetch req =
                (Resolved \<lparr>status = 200, headers = json_headers,
                           body = Some (JObj [(lit ''response'', generated)])\<rparr>,
                 [openAI_request k message])"
    if "fetch (openAI_request k message) = Resolved resp" and "ok resp"
      and "up_json resp = Resolved (JObj props)"
      and "map_of props (lit ''choices'') = Some (JArr (JObj choice # others))"
      and "map_of choice (lit ''message'') = Some (JObj msg)"
      and "map_of msg (lit ''content'') = Some generated"
      and "generated \<noteq> JUndefined"
    for resp props choice others msg generated
    using that first_choice_content_first [of props choice others msg generated]
    by (simp add: serve_accepted [OF assms] success_def json_stringify_def)
  ultimately show ?thesis
    by blast
qed

theorem proxy_prompt_and_response_witness:
  "serve (Some demo_key) demo_fetch_ok demo_ask
     = (Resolved \<lparr>status = 200, headers = json_headers,
                  body = Some (JObj [(lit ''response'', JStr (lit ''Plants turn light into sugar.''))])\<rparr>,
        [openAI_request demo_key demo_question])
   \<and> messages (fetch_body (openAI_request demo_key demo_question)) =
        [(lit ''system'', JStr system_instruction), (lit ''user'', demo_question)]"
proof -
  have m: "req_method demo_ask \<noteq> lit ''OPTIONS''"
    by (simp add: demo_ask_def lit_def)
  have j: "req_json demo_ask = Resolved (JObj [(lit ''message'', demo_question)])"
    by (simp add: demo_ask_def)
  have g: "get_prop (JObj [(lit ''message'', demo_question)]) (lit ''message'') = Inr demo_question"
    by simp
  have t: "truthy demo_question"
    by (simp add: demo_question_def lit_def)
  have k: "demo_key \<noteq> []"
    by (simp add: demo_key_def lit_def)
  let ?resp = "\<lparr>up_status = 200, up_text = Rejected TypeError, up_json = Resolved demo_completion\<rparr>"
  let ?msg = "[(lit ''role'', JStr (lit ''assistant'')),
               (lit ''content'', JStr (lit ''Plants turn light into sugar.''))]"
  let ?choice = "[(lit ''index'', JNum 0), (lit ''finish_reason'', JStr (lit ''stop'')),
                  (lit ''message'', JObj ?msg)]"
  let ?props = "[(lit ''id'', JStr (lit ''cmpl-1'')),
                  (lit ''choices'',
                   JArr [JObj ?choice, demo_choice ''Ask a botanist.''])]"
  have f: "demo_fetch_ok (openAI_request demo_key demo_question) = Resolved ?resp"
    by (simp add: demo_fetch_ok_def)
  have o: "ok ?resp"
    by (simp add: ok_def)
  have u: "up_json ?resp = Resolved (JObj ?props)"
    by (simp add: demo_completion_def demo_choice_def)
  have c1: "map_of ?props (lit ''choices'') =
              Some (JArr (JObj ?choice # [demo_choice ''Ask a botanist.'']))"
    by (simp add: lit_def)
  have c2: "map_of ?choice (lit ''message'') = Some (JObj ?msg)"
    by (simp add: lit_def)
  have c3: "map_of ?msg (lit ''content'') = Some (JStr (lit ''Plants turn light into sugar.''))"
    by (simp add: lit_def)
  note main = proxy_prompt_and_response [where fetch = demo_fetch_ok, OF m j g t k]
  from main f o u c1 c2 c3 show ?thesis
    by blast
qed

text \<open>
  C7. When the external API answers the call with a status outside 200..299 and a body
  text, the proxy answers with status 500 and a body of two strings: \<open>error\<close>, and
  \<open>details\<close>, which is "OpenAI API returned ", the upstream status written in decimal (a
  string of digits, without a leading zero, that denotes the status), ": ", and the
  upstream body text.
\<close>

theorem proxy_upstream_failure:
  assumes "req_method req \<noteq> lit ''OPTIONS''"
    and "req_json req = Resolved parsed"
    and "get_prop parsed (lit ''message'') = Inr message"
    and "truthy message"
    and "k \<noteq> []"
    and "fetch (openAI_request k message) = Resolved resp"
    and "\<not> ok resp"
    and "up_text resp = Resolved errorData"
  shows "serve (Some k) fetch req =
           (Resolved \<lparr>status = 500, headers = json_headers,
              body = Some (JObj [(lit ''error'', JStr (lit ''Failed to get response from AI'')),
                                 (lit ''details'',
                                  JStr (lit ''OpenAI API returned '' @ string_of_nat (up_status resp)
                                        @ lit '': '' @ errorData))])\<rparr>,
            [openAI_request k message])
         \<and> decimal_value (string_of_nat (up_status resp)) = up_status resp
         \<and> list_all is_decimal_digit (string_of_nat (up_status resp))
         \<and> string_of_nat (up_status resp) \<noteq> []
         \<and> (0 < up_status resp \<longrightarrow> hd (string_of_nat (up_status resp)) \<noteq> digit 0)"
  using assms
  by (simp add: serve_accepted upstream_failure_def json_stringify_def
      decimal_value_string_of_nat string_of_nat_digits string_of_nat_not_empty
      string_of_nat_leading)

theorem proxy_upstream_failure_witness:
  "serve (Some demo_key) demo_fetch_429 demo_ask
     = (Resolved \<lparr>status = 500, headers = json_headers,
          body = Some (JObj [(lit ''error'', JStr (lit ''Failed to get response from AI'')),
                             (lit ''details'', JStr (lit ''OpenAI API returned 429: rate limited''))])\<rparr>,
        [openAI_request demo_key demo_question])
   \<and> serve (Some demo_key) demo_fetch_503 demo_ask
     = (Resolved \<lparr>status = 500, headers = json_headers,
          body = Some (JObj [(lit ''error'', JStr (lit ''Failed to get response from AI'')),
                             (lit ''details'', JStr (lit ''OpenAI API returned 503: overloaded''))])\<rparr>,
        [openAI_request demo_key demo_question])"
proof -
  let ?r429 = "\<lparr>up_status = 429, up_text = Resolved (lit ''rate limited''),
                 up_json = Rejected TypeError\<rparr>"
  let ?r503 = "\<lparr>up_status = 503, up_text = Resolved (lit ''overloaded''),
                 up_json = Rejected TypeError\<rparr>"
  have m: "req_method demo_ask \<noteq> lit ''OPTIONS''"
    by (simp add: demo_ask_def lit_def)
  have j: "req_json demo_ask = Resolved (JObj [(lit ''message'', demo_question)])"
    by (simp add: demo_ask_def)
  have g: "get_prop (JObj [(lit ''message'', demo_question)]) (lit ''message'') = Inr demo_question"
    by simp
  have t: "truthy demo_question"
    by (simp add: demo_question_def lit_def)
  have k: "demo_key \<noteq> []"
    by (simp add: demo_key_def lit_def)
  have f1: "demo_fetch_429 (openAI_request demo_key demo_question) = Resolved ?r429"
    by (simp add: demo_fetch_429_def)
  have f2: "demo_fetch_503 (openAI_request demo_key demo_question) = Resolved ?r503"
    by (simp add: demo_fetch_503_def)
  have o: "\<not> ok ?r429" "\<not> ok ?r503"
    by (simp_all add: ok_def)
  have x: "up_text ?r429 = Resolved (lit ''rate limited'')"
    "up_text ?r503 = Resolved (lit ''overloaded'')"
    by simp_all
  have d1: "lit ''OpenAI API returned '' @ string_of_nat 429 @ lit '': '' @ lit ''rate limited''
             = lit ''OpenAI API returned 429: rate limited''"
    by (simp add: string_of_nat_429) (simp add: lit_def)
  have d2: "lit ''OpenAI API returned '' @ string_of_nat 503 @ lit '': '' @ lit ''overloaded''
             = lit ''OpenAI API returned 503: overloaded''"
    by (simp add: string_of_nat_503) (simp add: lit_def)
  from proxy_upstream_failure [where fetch = demo_fetch_429, OF m j g t k f1 o(1) x(1)]
       proxy_upstream_failure [where fetch = demo_fetch_503, OF m j g t k f2 o(2) x(2)]
       d1 d2
  show ?thesis
    by auto
qed









text \<open>
  C10. When \<open>req.json()\<close> rejects (no body, or a body that is not JSON), a request other
  than OPTIONS is answered with status 500 and the body
  \<open>{"error": "Internal server error"}\<close>, with no outbound call. A response with status
  400 is only ever returned when the body did parse, the destructuring did not throw, and
  the \<open>message\<close> found is falsy.
\<close>

theorem proxy_unparsable_body:
  "(req_method req \<noteq> lit ''OPTIONS'' \<and> req_json req = Rejected e \<longrightarrow>
      try_block key fetch req = (Rejected e, [])
      \<and> serve key fetch req = (Resolved internal_server_error, []))
   \<and> (\<forall>r. fst (serve key fetch req) = Resolved r \<and> status r = 400 \<longrightarrow>
        r = message_required
        \<and> (\<exists>parsed message. req_json req = Resolved parsed
              \<and> get_prop parsed (lit ''message'') = Inr message \<and> \<not> truthy message))
   \<and> status internal_server_error = 500
   \<and> body internal_server_error = Some (JObj [(lit ''error'', JStr (lit ''Internal server error''))])"
  by (auto simp: serve_def try_block_def preflight_def internal_server_error_def
      message_required_def key_not_configured_def upstream_failure_def success_def
      json_stringify_def Let_def
      split: promise.splits option.splits sum.splits prod.splits if_splits)

theorem proxy_unparsable_body_witness:
  "serve (Some demo_key) demo_fetch_ok demo_no_json = (Resolved internal_server_error, [])
   \<and> status internal_server_error = 500
   \<and> body internal_server_error = Some (JObj [(lit ''error'', JStr (lit ''Internal server error''))])"
  using proxy_unparsable_body [of demo_no_json SyntaxError "Some demo_key" demo_fetch_ok]
  by (simp add: demo_no_json_def lit_def)

section \<open>Properties of the Conversation Controller\<close>

lemma invoked_append: "invoked (xs @ ys) = invoked xs @ invoked ys"
  by (induction xs rule: invoked.induct) simp_all

lemma saved_append: "saved r (xs @ ys) = saved r xs @ saved r ys"
  by (induction r xs rule: saved.induct) simp_all

lemma dropWhile_unchanged: "xs \<noteq> [] \<Longrightarrow> \<not> P (hd xs) \<Longrightarrow> dropWhile P xs = xs"
  by (cases xs) simp_all

lemma trim_unchanged:
  assumes "s \<noteq> []" and "\<not> is_white_space (hd s)" and "\<not> is_white_space (last s)"
  shows "trim s = s"
proof -
  have "dropWhile is_white_space s = s"
    using assms by (simp add: dropWhile_unchanged)
  moreover have "dropWhile is_white_space (rev s) = rev s"
    using assms by (simp add: dropWhile_unchanged hd_rev)
  ultimately show ?thesis
    by (simp add: trim_def)
qed

lemma handleSendMessage_not_loading:
  "\<not> loading s \<Longrightarrow> \<not> loading (handleSendMessage env s)"
  by (auto simp: handleSendMessage_def Let_def split: prod.splits option.splits)

lemma handleSendMessage_user: "user (handleSendMessage env s) = user s"
  by (auto simp: handleSendMessage_def send_try_def saveMessage_def setMessages_def emit_def Let_def
      split: prod.splits option.splits invoke_outcome.splits sum.splits insert_outcome.splits)

text \<open>The table only grows: no row is changed or removed by a submission.\<close>

lemma handleSendMessage_appends:
  "\<exists>rows. messages_table (handleSendMessage env s) = messages_table s @ rows"
  by (auto simp: handleSendMessage_def send_try_def saveMessage_def setMessages_def emit_def Let_def
      split: prod.splits option.splits invoke_outcome.splits sum.splits insert_outcome.splits)

text \<open>
  Called by the handler of a render that has seen the current state, and run without
  another event in between, the suspended call goes through the steps of
  \<open>handleSendMessage\<close>.
\<close>

lemma run_handleSendMessage:
  "run [Submit, Completes 0 (InsertDone (save_user env)), Completes 0 (InvokeDone (invoke env)),
        Completes 0 (InsertDone (save_assistant env))] (fresh s) =
     \<lparr>current = handleSendMessage env s, rendered = s, suspended = []\<rparr>"
proof (cases "trim (inputValue s) = [] \<or> loading s")
  case True
  then show ?thesis
    by (simp add: handleSendMessage_def start_send_def fresh_def)
next
  case False
  show ?thesis
  proof (cases "save_user env")
    case InsertError
    then show ?thesis
      using False
      by (simp add: handleSendMessage_def send_try_def start_send_def fail_send_def Let_def
          saveMessage_def emit_def fresh_def)
  next
    case (Inserted i t)
    show ?thesis
    proof (cases "invoke env")
      case InvokeError
      then show ?thesis
        using False Inserted
        by (simp add: handleSendMessage_def send_try_def start_send_def fail_send_def Let_def
            saveMessage_def setMessages_def emit_def fresh_def)
    next
      case (InvokeData data)
      show ?thesis
      proof (cases "get_prop data (lit ''response'')")
        case (Inl e)
        then show ?thesis
          using False Inserted InvokeData
          by (simp add: handleSendMessage_def send_try_def start_send_def fail_send_def Let_def
              saveMessage_def setMessages_def emit_def fresh_def)
      next
        case (Inr r)
        then show ?thesis
          using False Inserted InvokeData
          by (cases "save_assistant env")
             (simp_all add: handleSendMessage_def send_try_def start_send_def fail_send_def Let_def
              saveMessage_def setMessages_def emit_def fresh_def)
      qed
    qed
  qed
qed





lemma round_trip:
  assumes "trim (inputValue s) \<noteq> []" and "\<not> loading s"
    and "save_user env = Inserted i t"
    and "invoke env = InvokeData data"
    and "get_prop data (lit ''response'') = Inr r"
    and "save_assistant env = Inserted i' t'"
  shows "trace (handleSendMessage env s) = trace s @
         [SaveMessage User (JStr (trim (inputValue s)))
            (Some \<lparr>msg_id = i, user_id = user s, msg_role = User,
                   content = JStr (trim (inputValue s)), created_at = t\<rparr>),
          SetMessages \<lparr>msg_id = i, user_id = user s, msg_role = User,
                   content = JStr (trim (inputValue s)), created_at = t\<rparr>,
          Invoke (invoke_body (trim (inputValue s))),
          SaveMessage Assistant r
            (Some \<lparr>msg_id = i', user_id = user s, msg_role = Assistant,
                   content = r, created_at = t'\<rparr>),
          SetMessages \<lparr>msg_id = i', user_id = user s, msg_role = Assistant,
                   content = r, created_at = t'\<rparr>]
    \<and> messages_table (handleSendMessage env s) = messages_table s @
         [\<lparr>msg_id = i, user_id = user s, msg_role = User,
             content = JStr (trim (inputValue s)), created_at = t\<rparr>,
          \<lparr>msg_id = i', user_id = user s, msg_role = Assistant,
                   content = r, created_at = t'\<rparr>]
    \<and> chat_messages (handleSendMessage env s) = chat_messages s @
         [\<lparr>msg_id = i, user_id = user s, msg_role = User,
             content = JStr (trim (inputValue s)), created_at = t\<rparr>,
          \<lparr>msg_id = i', user_id = user s, msg_role = Assistant,
                   content = r, created_at = t'\<rparr>]"
  using assms
  by (auto simp: handleSendMessage_def send_try_def saveMessage_def setMessages_def emit_def Let_def)

lemma round_trip_adds_two:
  assumes "trim (inputValue s) \<noteq> []" and "\<not> loading s" and "succeeds env" and "user s = Some u"
  shows "length (stored_for u (handleSendMessage env s)) = length (stored_for u s) + 2"
  using assms
  by (auto simp: handleSendMessage_def send_try_def saveMessage_def setMessages_def emit_def Let_def
       succeeds_def stored_for_def
      split: prod.splits option.splits invoke_outcome.splits sum.splits insert_outcome.splits)

lemma submissions_count:
  assumes "\<not> loading s" and "user s = Some u"
    and "\<forall>(inp, env) \<in> set subs. trim inp \<noteq> [] \<and> succeeds env"
  shows "length (stored_for u (submissions subs s)) = length (stored_for u s) + 2 * length subs"
  using assms
proof (induction subs arbitrary: s)
  case Nil
  then show ?case by simp
next
  case (Cons sub subs)
  obtain inp env where sub: "sub = (inp, env)"
    by (cases sub)
  let ?s1 = "handleSendMessage env (s\<lparr>inputValue := inp\<rparr>)"
  have good: "trim inp \<noteq> []" "succeeds env"
    using Cons.prems(3) sub by auto
  have l: "\<not> loading ?s1"
    using Cons.prems(1) by (intro handleSendMessage_not_loading) simp
  have u: "user ?s1 = Some u"
    using Cons.prems(2) by (simp add: handleSendMessage_user)
  have one: "length (stored_for u ?s1) = length (stored_for u s) + 2"
    using round_trip_adds_two [of "s\<lparr>inputValue := inp\<rparr>" env u] good Cons.prems
    by (simp add: stored_for_def)
  have "length (stored_for u (submissions subs ?s1)) = length (stored_for u ?s1) + 2 * length subs"
    using Cons.IH [OF l u] Cons.prems(3) by simp
  then show ?case
    using one sub by simp
qed

text \<open>
  C2. In a round trip whose steps all succeed, the effects are, in this order: the insert
  of the user turn, its append to the view, the call of the edge function, the insert of
  the assistant turn, its append to the view; the table gains exactly the user row and
  then the assistant row, and so does the view. So after N submissions that all succeed,
  the signed-in user has 2N more stored messages than before.
\<close>

theorem round_trip_order_and_count:
  "(trim (inputValue s) \<noteq> [] \<and> \<not> loading s \<and> save_user env = Inserted i t
      \<and> invoke env = InvokeData data \<and> get_prop data (lit ''response'') = Inr r
      \<and> save_assistant env = Inserted i' t' \<longrightarrow>
      trace (handleSendMessage env s) = trace s @
         [SaveMessage User (JStr (trim (inputValue s)))
            (Some \<lparr>msg_id = i, user_id = user s, msg_role = User,
                   content = JStr (trim (inputValue s)), created_at = t\<rparr>),
          SetMessages \<lparr>msg_id = i, user_id = user s, msg_role = User,
                   content = JStr (trim (inputValue s)), created_at = t\<rparr>,
          Invoke (invoke_body (trim (inputValue s))),
          SaveMessage Assistant r
            (Some \<lparr>msg_id = i', user_id = user s, msg_role = Assistant,
                   content = r, created_at = t'\<rparr>),
          SetMessages \<lparr>msg_id = i', user_id = user s, msg_role = Assistant,
                   content = r, created_at = t'\<rparr>]
      \<and> messages_table (handleSendMessage env s) = messages_table s @
         [\<lparr>msg_id = i, user_id = user s, msg_role = User,
             content = JStr (trim (inputValue s)), created_at = t\<rparr>,
          \<lparr>msg_id = i', user_id = user s, msg_role = Assistant,
                   content = r, created_at = t'\<rparr>]
      \<and> chat_messages (handleSendMessage env s) = chat_messages s @
         [\<lparr>msg_id = i, user_id = user s, msg_role = User,
             content = JStr (trim (inputValue s)), created_at = t\<rparr>,
          \<lparr>msg_id = i', user_id = user s, msg_role = Assistant,
                   content = r, created_at = t'\<rparr>])
   \<and> (\<not> loading s \<and> user s = Some u
       \<and> (\<forall>(inp, env) \<in> set subs. trim inp \<noteq> [] \<and> succeeds env) \<longrightarrow>
       length (stored_for u (submissions subs s)) = length (stored_for u s) + 2 * length subs)"
  using round_trip [of s env i t data r i' t'] submissions_count [of s u subs]
  by blast

theorem round_trip_order_and_count_witness:
  "trace (handleSendMessage demo_ok demo_chat) =
     [SaveMessage User (JStr (lit ''What is photosynthesis?''))
        (Some (demo_user_row (lit ''What is photosynthesis?''))),
      SetMessages (demo_user_row (lit ''What is photosynthesis?'')),
      Invoke (invoke_body (lit ''What is photosynthesis?'')),
      SaveMessage Assistant (JStr (lit ''Plants turn light into sugar.'')) (Some demo_assistant_row),
      SetMessages demo_assistant_row]
   \<and> messages_table (handleSendMessage demo_ok demo_chat) =
     [demo_user_row (lit ''What is photosynthesis?''), demo_assistant_row]
   \<and> chat_messages (handleSendMessage demo_ok demo_chat) =
     [demo_user_row (lit ''What is photosynthesis?''), demo_assistant_row]
   \<and> length (stored_for (lit ''u1'')
        (submissions [(lit ''What is photosynthesis?'', demo_ok), (lit ''How?'', demo_ok_again)]
           demo_chat)) = 4"
proof -
  have t: "trim (inputValue demo_chat) = lit ''What is photosynthesis?''"
    by (simp add: demo_chat_def trim_def is_white_space_def lit_def)
  have a: "trim (inputValue demo_chat) \<noteq> []"
    unfolding t by (simp add: lit_def)
  have l: "\<not> loading demo_chat"
    by (simp add: demo_chat_def)
  have o: "save_user demo_ok = Inserted (lit ''m1'') (lit ''2025-01-01T00:00:00Z'')"
    "invoke demo_ok = InvokeData (JObj [(lit ''response'', JStr (lit ''Plants turn light into sugar.''))])"
    "get_prop (JObj [(lit ''response'', JStr (lit ''Plants turn light into sugar.''))]) (lit ''response'')
       = Inr (JStr (lit ''Plants turn light into sugar.''))"
    "save_assistant demo_ok = Inserted (lit ''m2'') (lit ''2025-01-01T00:00:02Z'')"
    by (simp_all add: demo_ok_def)
  have s: "user demo_chat = Some (lit ''u1'')" "messages_table demo_chat = []"
    "chat_messages demo_chat = []" "trace demo_chat = []"
    by (simp_all add: demo_chat_def)
  have g: "succeeds demo_ok" "succeeds demo_ok_again"
    by (simp_all add: succeeds_def demo_ok_def demo_ok_again_def)
  have q: "trim (lit ''What is photosynthesis?'') \<noteq> []" "trim (lit ''How?'') \<noteq> []"
    by (simp_all add: trim_def is_white_space_def lit_def)
  have n: "stored_for (lit ''u1'') demo_chat = []"
    by (simp add: stored_for_def demo_chat_def)
  from round_trip_order_and_count
         [of demo_chat demo_ok "lit ''m1''" "lit ''2025-01-01T00:00:00Z''"
             "JObj [(lit ''response'', JStr (lit ''Plants turn light into sugar.''))]"
             "JStr (lit ''Plants turn light into sugar.'')"
             "lit ''m2''" "lit ''2025-01-01T00:00:02Z''" "lit ''u1''"
             "[(lit ''What is photosynthesis?'', demo_ok), (lit ''How?'', demo_ok_again)]"]
       a l o g q n
  show ?thesis
    unfolding t s by (simp add: demo_user_row_def demo_assistant_row_def)
qed


lemma resume_never_sets_loading:
  "resume t c s = (s', r) \<Longrightarrow> loading s' \<Longrightarrow> loading s"
  by (cases "(t, c, s)" rule: resume.cases)
     (auto simp: saveMessage_def setMessages_def emit_def fail_send_def Let_def
       split: prod.splits sum.splits invoke_outcome.splits insert_outcome.splits)






text \<open>
  After a render that has seen \<open>loading\<close>, a second submission changes nothing.
\<close>

lemma second_submit_rejected:
  "run [Submit, Render, Typed (lit ''again''), Submit] (fresh demo_chat) =
     \<lparr>current = demo_chat\<lparr>inputValue := lit ''again'', loading := True\<rparr>,
      rendered = demo_chat\<lparr>inputValue := [], loading := True\<rparr>,
      suspended = [AwaitSaveUser (lit ''What is photosynthesis?'')]\<rparr>"
  by (simp add: start_send_def fresh_def demo_chat_def trim_def is_white_space_def lit_def)




lemma hd_dropWhile_rev_suffix:
  assumes "dropWhile P (rev d) \<noteq> []"
  shows "last (dropWhile P (rev d)) = hd d"
proof -
  have "rev d = takeWhile P (rev d) @ dropWhile P (rev d)"
    by simp
  then have "last (rev d) = last (dropWhile P (rev d))"
    using assms by (metis last_appendR)
  moreover have "d \<noteq> []"
    using assms by auto
  ultimately show ?thesis
    by (simp add: last_rev)
qed

text \<open>What \<open>trim\<close> returns has no white space at either end.\<close>

lemma trim_ends:
  assumes "trim s \<noteq> []"
  shows "\<not> is_white_space (hd (trim s))" and "\<not> is_white_space (last (trim s))"
proof -
  let ?d = "dropWhile is_white_space s"
  let ?r = "dropWhile is_white_space (rev ?d)"
  have r: "?r \<noteq> []"
    using assms by (simp add: trim_def)
  have d: "?d \<noteq> []"
  proof
    assume "?d = []"
    with r show False
      by simp
  qed
  have "hd (trim s) = last ?r"
    using r by (simp add: trim_def hd_rev)
  also have "\<dots> = hd ?d"
    using r by (rule hd_dropWhile_rev_suffix)
  finally show "\<not> is_white_space (hd (trim s))"
    using d hd_dropWhile [of is_white_space s] by simp
  have "last (trim s) = hd ?r"
    using r by (simp add: trim_def last_rev)
  then show "\<not> is_white_space (last (trim s))"
    using r hd_dropWhile [of is_white_space "rev ?d"] by simp
qed

lemma trim_unchanged_iff:
  assumes "trim s \<noteq> []"
  shows "trim s = s \<longleftrightarrow> \<not> is_white_space (hd s) \<and> \<not> is_white_space (last s)"
proof
  assume "trim s = s"
  then show "\<not> is_white_space (hd s) \<and> \<not> is_white_space (last s)"
    using trim_ends [OF assms] by simp
next
  assume e: "\<not> is_white_space (hd s) \<and> \<not> is_white_space (last s)"
  have "s \<noteq> []"
    using assms by (cases s) (simp_all add: trim_def)
  then show "trim s = s"
    using e by (simp add: trim_unchanged)
qed

text \<open>
  The effects of a submission that is accepted, by what the insert of the user turn
  meets: the call of the edge function comes after the insert and the append to the view,
  and nothing after it saves a user turn or calls the edge function again.
\<close>

lemma send_trace_inserted:
  assumes "trim (inputValue s) \<noteq> []" and "\<not> loading s" and "save_user env = Inserted i t"
  shows "\<exists>later rows.
           trace (handleSendMessage env s) = trace s @
             [SaveMessage User (JStr (trim (inputValue s)))
                (Some \<lparr>msg_id = i, user_id = user s, msg_role = User,
                       content = JStr (trim (inputValue s)), created_at = t\<rparr>),
              SetMessages \<lparr>msg_id = i, user_id = user s, msg_role = User,
                       content = JStr (trim (inputValue s)), created_at = t\<rparr>,
              Invoke (invoke_body (trim (inputValue s)))] @ later
           \<and> invoked later = [] \<and> saved User later = []
           \<and> messages_table (handleSendMessage env s) =
               messages_table s @
                 \<lparr>msg_id = i, user_id = user s, msg_role = User,
                  content = JStr (trim (inputValue s)), created_at = t\<rparr> # rows"
  using assms
  by (auto simp: handleSendMessage_def send_try_def saveMessage_def setMessages_def emit_def Let_def
      split: prod.splits option.splits invoke_outcome.splits sum.splits insert_outcome.splits)

lemma send_trace_insert_failed:
  assumes "trim (inputValue s) \<noteq> []" and "\<not> loading s" and "save_user env = InsertError"
  shows "trace (handleSendMessage env s) = trace s @
           [SaveMessage User (JStr (trim (inputValue s))) None, Toast send_failed]
         \<and> messages_table (handleSendMessage env s) = messages_table s"
  using assms
  by (auto simp: handleSendMessage_def send_try_def saveMessage_def setMessages_def emit_def Let_def)

lemma send_saved_and_invoked:
  assumes "trim (inputValue s) \<noteq> []" and "\<not> loading s"
  shows "saved User (trace (handleSendMessage env s)) =
           saved User (trace s) @ [JStr (trim (inputValue s))]"
    and "invoked (trace (handleSendMessage env s)) =
           invoked (trace s) @
             (if save_user env = InsertError then [] else [invoke_body (trim (inputValue s))])"
  using assms
  by (auto simp: handleSendMessage_def send_try_def saveMessage_def setMessages_def emit_def Let_def
       saved_append invoked_append
      split: prod.splits option.splits invoke_outcome.splits sum.splits insert_outcome.splits)

text \<open>
  C6, as the claim states it, fails: the user enters \<open>" hi"\<close> with a leading blank, every
  step succeeds, and both the content handed to the store and the \<open>message\<close> sent to the
  edge function are \<open>"hi"\<close>, not the text entered.
\<close>

theorem raw_text_counterexample:
  "inputValue (demo_chat\<lparr>inputValue := lit '' hi''\<rparr>) = lit '' hi''
   \<and> invoked (trace (handleSendMessage demo_ok (demo_chat\<lparr>inputValue := lit '' hi''\<rparr>)))
       = [JObj [(lit ''message'', JStr (lit ''hi''))]]
   \<and> saved User (trace (handleSendMessage demo_ok (demo_chat\<lparr>inputValue := lit '' hi''\<rparr>)))
       = [JStr (lit ''hi'')]
   \<and> map content (messages_table (handleSendMessage demo_ok (demo_chat\<lparr>inputValue := lit '' hi''\<rparr>)))
       = [JStr (lit ''hi''), JStr (lit ''Plants turn light into sugar.'')]
   \<and> lit ''hi'' \<noteq> lit '' hi''"
proof -
  let ?s = "demo_chat\<lparr>inputValue := lit '' hi''\<rparr>"
  have t: "trim (inputValue ?s) = lit ''hi''"
    by (simp add: trim_def is_white_space_def lit_def)
  have a: "trim (inputValue ?s) \<noteq> []"
    unfolding t by (simp add: lit_def)
  have l: "\<not> loading ?s"
    by (simp add: demo_chat_def)
  have o: "save_user demo_ok = Inserted (lit ''m1'') (lit ''2025-01-01T00:00:00Z'')"
    "invoke demo_ok = InvokeData (JObj [(lit ''response'', JStr (lit ''Plants turn light into sugar.''))])"
    "get_prop (JObj [(lit ''response'', JStr (lit ''Plants turn light into sugar.''))]) (lit ''response'')
       = Inr (JStr (lit ''Plants turn light into sugar.''))"
    "save_assistant demo_ok = Inserted (lit ''m2'') (lit ''2025-01-01T00:00:02Z'')"
    by (simp_all add: demo_ok_def)
  have e: "trace ?s = []" "messages_table ?s = []"
    by (simp_all add: demo_chat_def)
  have d: "lit ''hi'' \<noteq> lit '' hi''"
    by (simp add: lit_def)
  from send_saved_and_invoked [OF a l, of demo_ok] round_trip [OF a l o] o(1) d
  show ?thesis
    unfolding t e by (simp add: invoke_body_def)
qed

text \<open>
  C6, amended. For every submission that is accepted, the content handed to the store for
  the user turn is the text entered with the white space at both ends removed, and that
  is the text entered exactly when the text entered has no white space at either end.
  When that insert succeeds, the row stored has this content, and the edge function is
  called once, after the insert and the append to the view, with this same trimmed text
  as \<open>message\<close>. When the insert fails, nothing is stored and the edge function is not
  called.
\<close>

theorem send_uses_trimmed_text:
  assumes "trim (inputValue s) \<noteq> []" and "\<not> loading s"
  shows "(trim (inputValue s) = inputValue s \<longleftrightarrow>
            \<not> is_white_space (hd (inputValue s)) \<and> \<not> is_white_space (last (inputValue s)))
    \<and> saved User (trace (handleSendMessage env s)) =
           saved User (trace s) @ [JStr (trim (inputValue s))]
    \<and> invoked (trace (handleSendMessage env s)) =
           invoked (trace s) @
             (if save_user env = InsertError then []
              else [JObj [(lit ''message'', JStr (trim (inputValue s)))]])
    \<and> (\<forall>i t. save_user env = Inserted i t \<longrightarrow>
         (\<exists>later rows.
            trace (handleSendMessage env s) = trace s @
              [SaveMessage User (JStr (trim (inputValue s)))
                 (Some \<lparr>msg_id = i, user_id = user s, msg_role = User,
                        content = JStr (trim (inputValue s)), created_at = t\<rparr>),
               SetMessages \<lparr>msg_id = i, user_id = user s, msg_role = User,
                        content = JStr (trim (inputValue s)), created_at = t\<rparr>,
               Invoke (JObj [(lit ''message'', JStr (trim (inputValue s)))])] @ later
            \<and> invoked later = [] \<and> saved User later = []
            \<and> messages_table (handleSendMessage env s) =
                messages_table s @
                  \<lparr>msg_id = i, user_id = user s, msg_role = User,
                   content = JStr (trim (inputValue s)), created_at = t\<rparr> # rows))
    \<and> (save_user env = InsertError \<longrightarrow>
         trace (handleSendMessage env s) = trace s @
           [SaveMessage User (JStr (trim (inputValue s))) None, Toast send_failed]
         \<and> messages_table (handleSendMessage env s) = messages_table s)"
proof -
  have a: "trim (inputValue s) = inputValue s \<longleftrightarrow>
            \<not> is_white_space (hd (inputValue s)) \<and> \<not> is_white_space (last (inputValue s))"
    using assms(1) by (rule trim_unchanged_iff)
  have b: "saved User (trace (handleSendMessage env s)) =
           saved User (trace s) @ [JStr (trim (inputValue s))]"
    using send_saved_and_invoked(1) [OF assms] .
  have c: "invoked (trace (handleSendMessage env s)) =
           invoked (trace s) @
             (if save_user env = InsertError then []
              else [JObj [(lit ''message'', JStr (trim (inputValue s)))]])"
    using send_saved_and_invoked(2) [OF assms, of env] by (simp add: invoke_body_def)
  have d: "\<forall>i t. save_user env = Inserted i t \<longrightarrow>
         (\<exists>later rows.
            trace (handleSendMessage env s) = trace s @
              [SaveMessage User (JStr (trim (inputValue s)))
                 (Some \<lparr>msg_id = i, user_id = user s, msg_role = User,
                        content = JStr (trim (inputValue s)), created_at = t\<rparr>),
               SetMessages \<lparr>msg_id = i, user_id = user s, msg_role = User,
                        content = JStr (trim (inputValue s)), created_at = t\<rparr>,
               Invoke (JObj [(lit ''message'', JStr (trim (inputValue s)))])] @ later
            \<and> invoked later = [] \<and> saved User later = []
            \<and> messages_table (handleSendMessage env s) =
                messages_table s @
                  \<lparr>msg_id = i, user_id = user s, msg_role = User,
                   content = JStr (trim (inputValue s)), created_at = t\<rparr> # rows)"
    using send_trace_inserted [OF assms, of env] by (simp add: invoke_body_def)
  have e: "save_user env = InsertError \<longrightarrow>
         trace (handleSendMessage env s) = trace s @
           [SaveMessage User (JStr (trim (inputValue s))) None, Toast send_failed]
         \<and> messages_table (handleSendMessage env s) = messages_table s"
    using send_trace_insert_failed [OF assms, of env] by blast
  show ?thesis
    by (rule conjI [OF a conjI [OF b conjI [OF c conjI [OF d e]]]])
qed

theorem send_uses_trimmed_text_witness:
  "saved User (trace (handleSendMessage demo_ok (demo_chat\<lparr>inputValue := lit '' hi''\<rparr>)))
     = [JStr (lit ''hi'')]
   \<and> invoked (trace (handleSendMessage demo_ok (demo_chat\<lparr>inputValue := lit '' hi''\<rparr>)))
     = [JObj [(lit ''message'', JStr (lit ''hi''))]]
   \<and> trim (lit '' hi'') \<noteq> lit '' hi''
   \<and> is_white_space (hd (lit '' hi''))"
proof -
  let ?s = "demo_chat\<lparr>inputValue := lit '' hi''\<rparr>"
  have t: "trim (lit '' hi'') = lit ''hi''"
    by (simp add: trim_def is_white_space_def lit_def)
  have a: "trim (inputValue ?s) \<noteq> []"
    by (simp add: t) (simp add: lit_def)
  have l: "\<not> loading ?s"
    by (simp add: demo_chat_def)
  have e: "trace ?s = []"
    by (simp add: demo_chat_def)
  have u: "save_user demo_ok \<noteq> InsertError"
    by (simp add: demo_ok_def)
  have w: "is_white_space (hd (lit '' hi''))"
    by (simp add: is_white_space_def lit_def)
  note main = send_uses_trimmed_text [OF a l, of demo_ok]
  have one: "saved User (trace (handleSendMessage demo_ok ?s)) = [JStr (lit ''hi'')]"
    using main e by (simp add: t)
  have two: "invoked (trace (handleSendMessage demo_ok ?s)) = [JObj [(lit ''message'', JStr (lit ''hi''))]]"
    using main e u by (simp add: t)
  have three: "trim (lit '' hi'') \<noteq> lit '' hi''"
    using main w by simp
  from one two three w show ?thesis
    by simp
qed

lemma filter_own_profile:
  "filter (\<lambda>p. Some (profile_id p) = u)
     (map (\<lambda>p. if Some (profile_id p) = u then p\<lparr>display_name := n\<rparr> else p) rows)
   = map (\<lambda>p. p\<lparr>display_name := n\<rparr>) (filter (\<lambda>p. Some (profile_id p) = u) rows)"
  by (induction rows) simp_all

lemma updateDisplayName_blank: "trim (displayNameInput s) = [] \<Longrightarrow> updateDisplayName out s = s"
  by (simp add: updateDisplayName_def)

lemma updateDisplayName_table:
  "trim (displayNameInput s) \<noteq> [] \<Longrightarrow>
     profiles_table (updateDisplayName UpdateOk s) =
       map (\<lambda>p. if Some (profile_id p) = user s
                 then p\<lparr>display_name := Some (trim (displayNameInput s))\<rparr> else p)
         (profiles_table s)"
  by (simp add: updateDisplayName_def emit_def Let_def)

lemma updateDisplayName_load:
  assumes "trim (displayNameInput s) \<noteq> []"
    and "filter (\<lambda>p. Some (profile_id p) = user s) (profiles_table s) = [p]"
  shows "profile (loadProfile SelectOk (updateDisplayName UpdateOk s)) =
           Some (p\<lparr>display_name := Some (trim (displayNameInput s))\<rparr>)"
proof -
  let ?s' = "updateDisplayName UpdateOk s"
  have u: "user ?s' = user s"
    using assms(1) by (simp add: updateDisplayName_def emit_def Let_def)
  have "filter (\<lambda>p. Some (profile_id p) = user ?s') (profiles_table ?s') =
          [p\<lparr>display_name := Some (trim (displayNameInput s))\<rparr>]"
    unfolding u updateDisplayName_table [OF assms(1)] filter_own_profile
    using assms(2) by simp
  then show ?thesis
    by (simp add: loadProfile_def)
qed

lemma updateDisplayName_twice:
  assumes "trim (displayNameInput s) \<noteq> []"
  shows "updateDisplayName UpdateOk (updateDisplayName UpdateOk s) =
           (updateDisplayName UpdateOk s)
             \<lparr>trace := trace (updateDisplayName UpdateOk s) @
                [UpdateProfile (trim (displayNameInput s)) True, Toast display_name_updated]\<rparr>"
  using assms
  by (auto simp: updateDisplayName_def emit_def Let_def split: option.splits)

text \<open>
  C9. \<open>updateDisplayName\<close> with a name that is empty after trimming returns the state as
  it was (no write to \<open>profiles\<close>, no change of the profile). With any other name, when
  the store accepts the write: every row of the signed-in user gets the trimmed name and
  the other rows stay as they were; a \<open>loadProfile\<close> after it, the user having one row,
  sets the profile to that row with the trimmed name; and a second update with the same
  input leaves the state as the first left it, apart from the trace, which records the
  second write and its toast.
\<close>

theorem updateDisplayName_overwrites:
  "(trim (displayNameInput s) = [] \<longrightarrow> updateDisplayName out s = s)
   \<and> (trim (displayNameInput s) \<noteq> [] \<longrightarrow>
        profiles_table (updateDisplayName UpdateOk s) =
          map (\<lambda>p. if Some (profile_id p) = user s
                    then p\<lparr>display_name := Some (trim (displayNameInput s))\<rparr> else p)
            (profiles_table s)
        \<and> (\<forall>p. filter (\<lambda>p. Some (profile_id p) = user s) (profiles_table s) = [p] \<longrightarrow>
              profile (loadProfile SelectOk (updateDisplayName UpdateOk s)) =
                Some (p\<lparr>display_name := Some (trim (displayNameInput s))\<rparr>))
        \<and> updateDisplayName UpdateOk (updateDisplayName UpdateOk s) =
            (updateDisplayName UpdateOk s)
              \<lparr>trace := trace (updateDisplayName UpdateOk s) @
                 [UpdateProfile (trim (displayNameInput s)) True, Toast display_name_updated]\<rparr>)"
  using updateDisplayName_blank [of s out] updateDisplayName_table [of s]
    updateDisplayName_load [of s] updateDisplayName_twice [of s]
  by blast

theorem updateDisplayName_overwrites_witness:
  "updateDisplayName UpdateOk (demo_chat\<lparr>displayNameInput := lit ''   ''\<rparr>)
     = demo_chat\<lparr>displayNameInput := lit ''   ''\<rparr>
   \<and> profiles_table (updateDisplayName UpdateOk demo_chat) =
       [\<lparr>profile_id = lit ''u1'', display_name = Some (lit ''Ada''), email = lit ''ada@example.org''\<rparr>,
        \<lparr>profile_id = lit ''u2'', display_name = Some (lit ''Bob''), email = lit ''bob@example.org''\<rparr>]
   \<and> profile (loadProfile SelectOk (updateDisplayName UpdateOk demo_chat)) =
       Some \<lparr>profile_id = lit ''u1'', display_name = Some (lit ''Ada''), email = lit ''ada@example.org''\<rparr>
   \<and> profiles_table (updateDisplayName UpdateOk (updateDisplayName UpdateOk demo_chat))
       = profiles_table (updateDisplayName UpdateOk demo_chat)"
proof -
  let ?b = "demo_chat\<lparr>displayNameInput := lit ''   ''\<rparr>"
  let ?row = "\<lparr>profile_id = lit ''u1'', display_name = None, email = lit ''ada@example.org''\<rparr>"
  have b: "trim (displayNameInput ?b) = []"
    by (simp add: trim_def is_white_space_def lit_def)
  have t: "trim (displayNameInput demo_chat) = lit ''Ada''"
    by (simp add: demo_chat_def trim_def is_white_space_def lit_def)
  have a: "trim (displayNameInput demo_chat) \<noteq> []"
    unfolding t by (simp add: lit_def)
  have f: "filter (\<lambda>p. Some (profile_id p) = user demo_chat) (profiles_table demo_chat) = [?row]"
    by (simp add: demo_chat_def lit_def)
  have p: "profiles_table demo_chat =
      [?row, \<lparr>profile_id = lit ''u2'', display_name = Some (lit ''Bob''), email = lit ''bob@example.org''\<rparr>]"
    "user demo_chat = Some (lit ''u1'')"
    by (simp_all add: demo_chat_def)
  have d: "lit ''u2'' \<noteq> lit ''u1''"
    by (simp add: lit_def)
  from updateDisplayName_overwrites [of ?b UpdateOk] updateDisplayName_overwrites [of demo_chat UpdateOk]
       b a f d
  show ?thesis
    unfolding t p by simp
qed



end
